theory Spec2Isabelle
  imports Complex_Main
begin

section \<open>JavaScript values\<close>

text \<open>
  The values the pipeline handles are what \<^verbatim>\<open>JSON.parse\<close> and the database driver
  return: null, booleans, numbers, strings, arrays and plain objects. A finite double is
  a rational number; \<^verbatim>\<open>+0\<close> and \<^verbatim>\<open>-0\<close> are one value here, as they are for
  \<^verbatim>\<open>===\<close>. An object is the list of its own properties in insertion order.
\<close>

datatype json =
    JNull
  | JBool bool
  | JNum rat
  | JStr string
  | JArr "json list"
  | JObj "(string \<times> json) list"

text \<open>A JavaScript value: \<open>None\<close> is \<^verbatim>\<open>undefined\<close>.\<close>

type_synonym jsval = "json option"

datatype exn = TypeError | SyntaxError | SendError | QueryError

text \<open>\<^verbatim>\<open>x == null\<close>: the values on which a property access throws.\<close>

fun nullish :: "jsval \<Rightarrow> bool" where
  "nullish None = True"
| "nullish (Some JNull) = True"
| "nullish (Some _) = False"

text \<open>
  \<^verbatim>\<open>v.p\<close> on a value that is neither null nor undefined, for the property names this
  program reads (\<^verbatim>\<open>table\<close>, \<^verbatim>\<open>operation\<close>, \<^verbatim>\<open>password\<close>, \<^verbatim>\<open>ipAddress\<close>, ...): none of
  them is inherited from a prototype, so only an object's own property gives a value;
  on a string, number, boolean or array the result is \<^verbatim>\<open>undefined\<close>.
\<close>

fun member :: "string \<Rightarrow> json \<Rightarrow> jsval" where
  "member p (JObj fs) = map_of fs p"
| "member p _ = None"

text \<open>Optional chaining \<^verbatim>\<open>x?.p\<close>: \<^verbatim>\<open>undefined\<close> when \<^verbatim>\<open>x\<close> is null or undefined.\<close>

fun opt_member :: "string \<Rightarrow> jsval \<Rightarrow> jsval" where
  "opt_member p None = None"
| "opt_member p (Some JNull) = None"
| "opt_member p (Some v) = member p v"

text \<open>
  \<^verbatim>\<open>a === b\<close> for two values read from different places of parsed data (two columns of
  a row, two properties of a parsed message, a property and a literal). Values of
  different types are never equal; null, undefined, booleans, numbers and strings
  compare by value; arrays and objects compare by reference, and two references read
  from different places of parsed data are never the same object.
\<close>

fun strict_eq :: "jsval \<Rightarrow> jsval \<Rightarrow> bool" where
  "strict_eq None None = True"
| "strict_eq (Some JNull) (Some JNull) = True"
| "strict_eq (Some (JBool a)) (Some (JBool b)) = (a = b)"
| "strict_eq (Some (JNum a)) (Some (JNum b)) = (a = b)"
| "strict_eq (Some (JStr a)) (Some (JStr b)) = (a = b)"
| "strict_eq _ _ = False"

text \<open>Arrays and objects: the values \<^verbatim>\<open>===\<close> compares by reference.\<close>

fun is_reference :: "jsval \<Rightarrow> bool" where
  "is_reference (Some (JArr _)) = True"
| "is_reference (Some (JObj _)) = True"
| "is_reference _ = False"

text \<open>\<^verbatim>\<open>ToBoolean\<close>, as \<^verbatim>\<open>||\<close>, \<^verbatim>\<open>?:\<close> and \<^verbatim>\<open>if\<close> apply it.\<close>

fun truthy :: "jsval \<Rightarrow> bool" where
  "truthy None = False"
| "truthy (Some JNull) = False"
| "truthy (Some (JBool b)) = b"
| "truthy (Some (JNum n)) = (n \<noteq> 0)"
| "truthy (Some (JStr s)) = (s \<noteq> [])"
| "truthy (Some _) = True"

section \<open>The change log\<close>

text \<open>
  A row of \<^verbatim>\<open>cdc_change_log\<close> as the driver returns it. \<^verbatim>\<open>operation_type\<close> is an
  \<^verbatim>\<open>ENUM('INSERT', 'UPDATE', 'DELETE') NOT NULL\<close> column, read as its string;
  \<^verbatim>\<open>record_id\<close> and \<^verbatim>\<open>user_id\<close> may be NULL; a NULL JSON column is \<^verbatim>\<open>null\<close>.
\<close>

datatype operation = INSERT | UPDATE | DELETE

fun op_name :: "operation \<Rightarrow> string" where
  "op_name INSERT = ''INSERT''"
| "op_name UPDATE = ''UPDATE''"
| "op_name DELETE = ''DELETE''"

record change =
  change_id :: int
  table_name :: string
  operation_type :: operation
  record_id :: "string option"
  old_data :: json
  new_data :: json
  user_id :: "int option"
  change_timestamp :: int
  processed :: bool

section \<open>Classifier, producer side (TiDBCDCService)\<close>

definition cdc_isCriticalChange :: "change \<Rightarrow> bool" where
  "cdc_isCriticalChange c =
     (if table_name c = ''users'' \<and> op_name (operation_type c) = ''DELETE'' then True
      else if table_name c = ''users'' \<and> op_name (operation_type c) = ''UPDATE''
              \<and> \<not> strict_eq (opt_member ''password'' (Some (old_data c)))
                              (opt_member ''password'' (Some (new_data c)))
           then True
      else False)"

definition getSecurityImplications :: "change \<Rightarrow> string" where
  "getSecurityImplications c =
     (if table_name c = ''users'' \<and> op_name (operation_type c) = ''DELETE''
        then ''USER_ACCOUNT_DELETED''
      else if table_name c = ''users'' \<and> op_name (operation_type c) = ''UPDATE''
        then ''USER_DATA_MODIFIED''
      else ''UNKNOWN'')"

section \<open>Classifier, consumer side (KafkaConsumerService)\<close>

text \<open>
  Each function reads a property of its argument first, which throws a TypeError when
  the argument is null or undefined.
\<close>

definition classifyChange :: "jsval \<Rightarrow> exn + string" where
  "classifyChange eventData =
     (if nullish eventData then Inl TypeError
      else if strict_eq (opt_member ''table'' eventData) (Some (JStr ''users''))
        then Inr ''USER_DATA_CHANGE''
      else if strict_eq (opt_member ''table'' eventData) (Some (JStr ''user_tokens''))
        then Inr ''AUTH_TOKEN_CHANGE''
      else Inr ''GENERAL_DATA_CHANGE'')"

definition consumer_isCriticalChange :: "jsval \<Rightarrow> exn + bool" where
  "consumer_isCriticalChange eventData =
     (if nullish eventData then Inl TypeError
      else Inr (strict_eq (opt_member ''table'' eventData) (Some (JStr ''users'')) \<and>
          (strict_eq (opt_member ''operation'' eventData) (Some (JStr ''DELETE'')) \<or>
           (strict_eq (opt_member ''operation'' eventData) (Some (JStr ''UPDATE'')) \<and>
            \<not> strict_eq (opt_member ''password'' (opt_member ''newData'' eventData))
                          (opt_member ''password'' (opt_member ''oldData'' eventData))))))"

definition assessLoginRisk :: "jsval \<Rightarrow> exn + string" where
  "assessLoginRisk loginData =
     (if nullish loginData then Inl TypeError
      else if strict_eq (opt_member ''ipAddress'' loginData) (Some (JStr ''127.0.0.1''))
        then Inr ''LOW''
      else Inr ''MEDIUM'')"

text \<open>
  The spec's words for the origins of low risk are \<open>loopback/local origin\<close>. These are
  the addresses by which a client on the server's own host reaches it, as the server's
  middleware can forward them (\<^verbatim>\<open>remoteAddress\<close> of a local socket, or its default):
  the IPv4 loopback address, the IPv6 one, its IPv4-mapped form, and the host name.
\<close>

definition loopback_origin :: "string \<Rightarrow> bool" where
  "loopback_origin a = (a \<in> set [''127.0.0.1'', ''::1'', ''::ffff:127.0.0.1'', ''localhost''])"

section \<open>Effects\<close>

text \<open>
  What the process reads from its surroundings: the clock (one reading per call),
  \<^verbatim>\<open>Date.prototype.toISOString\<close>, \<^verbatim>\<open>config.database.database\<close> and
  \<^verbatim>\<open>process.env.NODE_ENV\<close>; the consumer also reads the time a call takes,
  \<^verbatim>\<open>process.pid\<close>, \<^verbatim>\<open>JSON.stringify\<close> and \<^verbatim>\<open>JSON.parse\<close> (\<open>None\<close> when it
  throws a SyntaxError).
\<close>

record runtime =
  now_ms :: int
  toISOString :: "int \<Rightarrow> string"
  config_database :: string
  node_env :: "string option"

record consumer_runtime = runtime +
  elapsed_ms :: int
  pid :: int
  JSON_stringify :: "json \<Rightarrow> string"
  JSON_parse :: "string \<Rightarrow> json option"

text \<open>\<^verbatim>\<open>process.env.NODE_ENV || 'development'\<close>\<close>

definition environment_of :: "'a runtime_scheme \<Rightarrow> string" where
  "environment_of rt =
     (case node_env rt of None \<Rightarrow> ''development''
      | Some s \<Rightarrow> if s = [] then ''development'' else s)"

text \<open>
  A call either returns or throws; either way it leaves a state behind.
\<close>

datatype 's outcome = Returned 's | Thrown exn 's

text \<open>
  What the process writes: lines on the console and calls of the structured logger
  with their arguments. The message and the stack of a caught error are left out of
  the data of a system event.
\<close>

datatype logev =
    Console json
  | Processing nat
  | SystemEvent string string json
  | KafkaEvent string string jsval jsval jsval jsval
  | DatabaseChange string string "string option" json json "int option"

text \<open>
  A message handed to \<^verbatim>\<open>producer.send\<close>. The payload is the document whose
  \<^verbatim>\<open>JSON.stringify\<close> text is the message value.
\<close>

record kmsg =
  topic :: string
  msg_key :: string
  payload :: json
  msg_timestamp :: int

text \<open>
  The surroundings of one poller cycle: whether the SELECT and the UPDATE succeed, and
  which messages the broker accepts (\<^verbatim>\<open>producer.send\<close> rejects on the others).
\<close>

record world =
  select_ok :: bool
  update_ok :: bool
  send_ok :: "kmsg \<Rightarrow> bool"

record cdc_state =
  lastProcessedId :: int
  changesProcessed :: nat
  cdc_change_log :: "change list"
  bus :: "kmsg list"
  cdc_logs :: "logev list"

definition cdc_log :: "logev \<Rightarrow> cdc_state \<Rightarrow> cdc_state" where
  "cdc_log e st = st\<lparr>cdc_logs := cdc_logs st @ [e]\<rparr>"

definition producer_send :: "world \<Rightarrow> kmsg \<Rightarrow> cdc_state \<Rightarrow> cdc_state outcome" where
  "producer_send w m st =
     (if send_ok w m then Returned (st\<lparr>bus := bus st @ [m]\<rparr>) else Thrown SendError st)"

section \<open>Publisher (TiDBCDCService)\<close>

record cdcMetadata =
  cdcId :: int
  processedAt :: string
  processingDelay :: int

record metadata =
  database :: string
  environment :: string
  cdcService :: string

record changeLogEntry =
  timestamp :: string
  category :: string
  operation :: string
  table :: string
  recordId :: "string option"
  userId :: "int option"
  oldData :: json
  newData :: json
  changeTimestamp :: string
  cdcMetadata :: cdcMetadata
  metadata :: metadata

record criticalLogEntry = changeLogEntry +
  alertLevel :: string
  requiresAttention :: bool
  securityImplications :: string

text \<open>A nullable column in a document and in a template literal.\<close>

definition str_json :: "string option \<Rightarrow> json" where
  "str_json s = (case s of None \<Rightarrow> JNull | Some x \<Rightarrow> JStr x)"

definition int_json :: "int option \<Rightarrow> json" where
  "int_json n = (case n of None \<Rightarrow> JNull | Some x \<Rightarrow> JNum (of_int x))"

definition template :: "string option \<Rightarrow> string" where
  "template s = (case s of None \<Rightarrow> ''null'' | Some x \<Rightarrow> x)"

text \<open>The document \<^verbatim>\<open>JSON.stringify\<close> writes for an entry, properties in order.\<close>

definition entry_fields :: "'a changeLogEntry_scheme \<Rightarrow> (string \<times> json) list" where
  "entry_fields e =
     [(''timestamp'', JStr (timestamp e)),
      (''category'', JStr (category e)),
      (''operation'', JStr (operation e)),
      (''table'', JStr (table e)),
      (''recordId'', str_json (recordId e)),
      (''userId'', int_json (userId e)),
      (''oldData'', oldData e),
      (''newData'', newData e),
      (''changeTimestamp'', JStr (changeTimestamp e)),
      (''cdcMetadata'', JObj
         [(''cdcId'', JNum (of_int (cdcId (cdcMetadata e)))),
          (''processedAt'', JStr (processedAt (cdcMetadata e))),
          (''processingDelay'', JNum (of_int (processingDelay (cdcMetadata e))))]),
      (''metadata'', JObj
         [(''database'', JStr (database (metadata e))),
          (''environment'', JStr (environment (metadata e))),
          (''cdcService'', JStr (cdcService (metadata e)))])]"

definition entry_json :: "changeLogEntry \<Rightarrow> json" where
  "entry_json e = JObj (entry_fields e)"

definition critical_json :: "criticalLogEntry \<Rightarrow> json" where
  "critical_json e = JObj (entry_fields e @
     [(''alertLevel'', JStr (alertLevel e)),
      (''requiresAttention'', JBool (requiresAttention e)),
      (''securityImplications'', JStr (securityImplications e))])"

definition mk_changeLogEntry :: "runtime \<Rightarrow> change \<Rightarrow> changeLogEntry" where
  "mk_changeLogEntry rt c =
     \<lparr>timestamp = toISOString rt (now_ms rt),
      category = ''DATABASE_CHANGE'',
      operation = op_name (operation_type c),
      table = table_name c,
      recordId = record_id c,
      userId = user_id c,
      oldData = old_data c,
      newData = new_data c,
      changeTimestamp = toISOString rt (change_timestamp c),
      cdcMetadata = \<lparr>cdcId = change_id c,
                     processedAt = toISOString rt (now_ms rt),
                     processingDelay = now_ms rt - change_timestamp c\<rparr>,
      metadata = \<lparr>database = config_database rt,
                  environment = environment_of rt,
                  cdcService = ''tidb-cdc''\<rparr>\<rparr>"

definition primary_message :: "runtime \<Rightarrow> changeLogEntry \<Rightarrow> kmsg" where
  "primary_message rt e =
     \<lparr>topic = ''database-events'',
      msg_key = table e @ ''_'' @ template (recordId e),
      payload = entry_json e,
      msg_timestamp = now_ms rt\<rparr>"

definition sendChangeToKafka ::
  "runtime \<Rightarrow> world \<Rightarrow> changeLogEntry \<Rightarrow> cdc_state \<Rightarrow> cdc_state" where
  "sendChangeToKafka rt w e st =
     (case producer_send w (primary_message rt e) st of
        Returned st' \<Rightarrow>
          cdc_log (KafkaEvent ''CHANGE_SENT'' ''database-events'' (Some (JNum 0))
                     (Some JNull) (Some (JStr (table e))) (Some (entry_json e))) st'
      | Thrown err st' \<Rightarrow>
          cdc_log (SystemEvent ''CDC_KAFKA_SEND_ERROR'' ''error''
                     (JObj [(''change'', entry_json e)])) st')"

definition mk_criticalLogEntry :: "change \<Rightarrow> changeLogEntry \<Rightarrow> criticalLogEntry" where
  "mk_criticalLogEntry c e =
     \<lparr>timestamp = timestamp e,
      category = ''CRITICAL_DATABASE_CHANGE'',
      operation = operation e,
      table = table e,
      recordId = recordId e,
      userId = userId e,
      oldData = oldData e,
      newData = newData e,
      changeTimestamp = changeTimestamp e,
      cdcMetadata = cdcMetadata e,
      metadata = metadata e,
      alertLevel = ''HIGH'',
      requiresAttention = True,
      securityImplications = getSecurityImplications c\<rparr>"

definition critical_message :: "runtime \<Rightarrow> change \<Rightarrow> changeLogEntry \<Rightarrow> kmsg" where
  "critical_message rt c e =
     \<lparr>topic = ''critical-database-events'',
      msg_key = ''CRITICAL_'' @ table_name c @ ''_'' @ template (record_id c),
      payload = critical_json (mk_criticalLogEntry c e),
      msg_timestamp = now_ms rt\<rparr>"

definition processCriticalChange ::
  "runtime \<Rightarrow> world \<Rightarrow> change \<Rightarrow> changeLogEntry \<Rightarrow> cdc_state \<Rightarrow> cdc_state outcome" where
  "processCriticalChange rt w c e st =
     producer_send w (critical_message rt c e)
       (cdc_log (Console (critical_json (mk_criticalLogEntry c e))) st)"

definition processChange :: "runtime \<Rightarrow> world \<Rightarrow> change \<Rightarrow> cdc_state \<Rightarrow> cdc_state" where
  "processChange rt w c st =
     (let e = mk_changeLogEntry rt c;
          st1 = cdc_log (Console (entry_json e)) st;
          st2 = cdc_log (DatabaseChange (op_name (operation_type c)) (table_name c)
                           (record_id c) (old_data c) (new_data c) (user_id c)) st1;
          st3 = sendChangeToKafka rt w e st2
      in if cdc_isCriticalChange c then
           (case processCriticalChange rt w c e st3 of
              Returned st4 \<Rightarrow> st4
            | Thrown err st4 \<Rightarrow>
                cdc_log (SystemEvent ''CDC_CHANGE_PROCESSING_ERROR'' ''error''
                           (JObj [(''changeId'', JNum (of_int (change_id c)))])) st4)
         else st3)"

section \<open>Poller (TiDBCDCService)\<close>

text \<open>
  \<^verbatim>\<open>SELECT * FROM cdc_change_log WHERE id > ? AND processed = FALSE ORDER BY id ASC
  LIMIT 100\<close>
\<close>

definition select_changes :: "int \<Rightarrow> change list \<Rightarrow> change list" where
  "select_changes cursor rows =
     take 100 (sort_key change_id
       (filter (\<lambda>c. change_id c > cursor \<and> \<not> processed c) rows))"

text \<open>\<^verbatim>\<open>UPDATE cdc_change_log SET processed = TRUE WHERE id <= ?\<close>\<close>

definition mark_processed :: "int \<Rightarrow> change list \<Rightarrow> change list" where
  "mark_processed maxId rows =
     map (\<lambda>c. if change_id c \<le> maxId then c\<lparr>processed := True\<rparr> else c) rows"

text \<open>The \<^verbatim>\<open>for (const change of changes)\<close> loop of \<^verbatim>\<open>pollForChanges\<close>.\<close>

fun process_loop :: "runtime \<Rightarrow> world \<Rightarrow> change list \<Rightarrow> cdc_state \<Rightarrow> cdc_state" where
  "process_loop rt w [] st = st"
| "process_loop rt w (c # cs) st =
     process_loop rt w cs
       ((processChange rt w c st)
          \<lparr>lastProcessedId := change_id c,
           changesProcessed := Suc (changesProcessed (processChange rt w c st))\<rparr>)"

text \<open>\<^verbatim>\<open>Math.max(...changes.map(c => c.id))\<close> on a batch that is not empty.\<close>

definition math_max :: "change \<Rightarrow> change list \<Rightarrow> int" where
  "math_max c cs = fold max (map change_id cs) (change_id c)"

definition poll_error :: "cdc_state \<Rightarrow> cdc_state" where
  "poll_error st =
     cdc_log (SystemEvent ''CDC_POLL_ERROR'' ''error''
       (JObj [(''lastProcessedId'',
               JObj [(''cdc_change_log'', JNum (of_int (lastProcessedId st)))])])) st"

definition pollForChanges :: "runtime \<Rightarrow> world \<Rightarrow> cdc_state \<Rightarrow> cdc_state" where
  "pollForChanges rt w st =
     (if \<not> select_ok w then poll_error st
      else
        (case select_changes (lastProcessedId st) (cdc_change_log st) of
           [] \<Rightarrow> st
         | c # cs \<Rightarrow>
             (let st1 = process_loop rt w (c # cs)
                          (cdc_log (Processing (length (c # cs))) st)
              in if update_ok w
                 then st1\<lparr>cdc_change_log := mark_processed (math_max c cs) (cdc_change_log st1)\<rparr>
                 else poll_error st1)))"

section \<open>Dispatcher (KafkaConsumerService)\<close>

text \<open>
  A received message: key and value are Buffers or null, their text kept here.
  \<^verbatim>\<open>message.partition\<close> is whatever the client library put there.
\<close>

record message =
  m_key :: "string option"
  m_value :: "string option"
  m_offset :: string
  m_timestamp :: string
  m_partition :: jsval

record consumer_state =
  processedMessages :: nat
  startTime :: int
  consumer_logs :: "logev list"

definition consumer_log :: "logev \<Rightarrow> consumer_state \<Rightarrow> consumer_state" where
  "consumer_log e st = st\<lparr>consumer_logs := consumer_logs st @ [e]\<rparr>"

text \<open>
  An object literal whose property values may be \<^verbatim>\<open>undefined\<close>; \<^verbatim>\<open>JSON.stringify\<close>
  leaves those properties out.
\<close>

definition obj :: "(string \<times> jsval) list \<Rightarrow> json" where
  "obj fs = JObj (concat (map (\<lambda>(k, v). case v of None \<Rightarrow> [] | Some j \<Rightarrow> [(k, j)]) fs))"

text \<open>
  A property after a spread, \<^verbatim>\<open>{...o, k: v}\<close>: it replaces the value where \<^verbatim>\<open>o\<close> has
  the property and is added last where it has not.
\<close>

fun set_prop :: "string \<Rightarrow> jsval \<Rightarrow> (string \<times> jsval) list \<Rightarrow> (string \<times> jsval) list" where
  "set_prop k v [] = [(k, v)]"
| "set_prop k v ((k', v') # fs) = (if k' = k then (k, v) # fs else (k', v') # set_prop k v fs)"

text \<open>\<^verbatim>\<open>a || b\<close>\<close>

definition js_or :: "jsval \<Rightarrow> jsval \<Rightarrow> jsval" where
  "js_or a b = (if truthy a then a else b)"

text \<open>\<^verbatim>\<open>x ? JSON.stringify(x).length : 0\<close>\<close>

definition size_of :: "consumer_runtime \<Rightarrow> jsval \<Rightarrow> json" where
  "size_of rt x =
     (case x of None \<Rightarrow> JNum 0
      | Some j \<Rightarrow> if truthy x then JNum (of_nat (length (JSON_stringify rt j))) else JNum 0)"

definition kafkaMetadata :: "string \<Rightarrow> message \<Rightarrow> jsval" where
  "kafkaMetadata tp m =
     Some (obj [(''topic'', Some (JStr tp)),
                (''offset'', Some (JStr (m_offset m))),
                (''partition'', m_partition m)])"

definition processLoginEvent ::
  "jsval \<Rightarrow> (string \<times> jsval) list \<Rightarrow> consumer_state \<Rightarrow> consumer_state outcome" where
  "processLoginEvent eventData logEntry st =
     (if nullish eventData then Thrown TypeError st
      else if truthy (opt_member ''ipAddress'' (opt_member ''data'' eventData)) then
        (case assessLoginRisk (opt_member ''data'' eventData) of
           Inl err \<Rightarrow> Thrown err st
         | Inr risk \<Rightarrow>
             Returned (consumer_log (Console (obj
               (set_prop ''riskLevel'' (Some (JStr risk))
                 (set_prop ''securityEvent'' (Some (JStr ''USER_LOGIN_DETECTED''))
                   (set_prop ''category'' (Some (JStr ''SECURITY_MONITORING'')) logEntry))))) st))
      else Returned st)"

definition processLogoutEvent ::
  "jsval \<Rightarrow> (string \<times> jsval) list \<Rightarrow> consumer_state \<Rightarrow> consumer_state outcome" where
  "processLogoutEvent eventData logEntry st =
     Returned (consumer_log (Console (obj
       (set_prop ''sessionEvent'' (Some (JStr ''USER_SESSION_ENDED''))
         (set_prop ''category'' (Some (JStr ''SESSION_MONITORING'')) logEntry)))) st)"

definition processRegistrationEvent ::
  "jsval \<Rightarrow> (string \<times> jsval) list \<Rightarrow> consumer_state \<Rightarrow> consumer_state outcome" where
  "processRegistrationEvent eventData logEntry st =
     Returned (consumer_log (Console (obj
       (set_prop ''growthEvent'' (Some (JStr ''NEW_USER_REGISTERED''))
         (set_prop ''category'' (Some (JStr ''USER_GROWTH_MONITORING'')) logEntry)))) st)"

text \<open>The \<^verbatim>\<open>try\<close> block of \<^verbatim>\<open>processUserEvent\<close>.\<close>

definition processUserEvent_try ::
  "consumer_runtime \<Rightarrow> jsval \<Rightarrow> message \<Rightarrow> consumer_state \<Rightarrow> consumer_state outcome" where
  "processUserEvent_try rt eventData m st =
     (if nullish eventData then Thrown TypeError st
      else
        (let d = opt_member ''data'' eventData;
             logEntry =
               [(''timestamp'', Some (JStr (toISOString rt (now_ms rt)))),
                (''category'', Some (JStr ''USER_EVENT_PROCESSING'')),
                (''eventType'', opt_member ''type'' eventData),
                (''userId'', opt_member ''userId'' d),
                (''email'', opt_member ''email'' d),
                (''action'', js_or (opt_member ''action'' d) (opt_member ''type'' eventData)),
                (''ipAddress'', opt_member ''ipAddress'' d),
                (''userAgent'', opt_member ''userAgent'' d),
                (''sessionId'', opt_member ''sessionId'' d),
                (''kafkaMetadata'', kafkaMetadata ''user-events'' m),
                (''processingMetadata'', Some (obj
                   [(''processedAt'', Some (JStr (toISOString rt (now_ms rt)))),
                    (''processingNode'', Some (JNum (of_int (pid rt)))),
                    (''environment'', Some (JStr (environment_of rt)))]))];
             st1 = consumer_log (Console (obj logEntry)) st
         in if strict_eq (opt_member ''type'' eventData) (Some (JStr ''USER_LOGIN''))
              then processLoginEvent eventData logEntry st1
            else if strict_eq (opt_member ''type'' eventData) (Some (JStr ''USER_LOGOUT''))
              then processLogoutEvent eventData logEntry st1
            else if strict_eq (opt_member ''type'' eventData) (Some (JStr ''USER_REGISTERED''))
              then processRegistrationEvent eventData logEntry st1
            else Returned st1))"

text \<open>A handler's \<^verbatim>\<open>catch\<close>: one system event carrying the event data.\<close>

definition handler_catch :: "string \<Rightarrow> jsval \<Rightarrow> consumer_state outcome \<Rightarrow> consumer_state" where
  "handler_catch ev eventData r =
     (case r of
        Returned st \<Rightarrow> st
      | Thrown err st \<Rightarrow>
          consumer_log (SystemEvent ev ''error'' (obj [(''eventData'', eventData)])) st)"

definition processUserEvent ::
  "consumer_runtime \<Rightarrow> jsval \<Rightarrow> message \<Rightarrow> consumer_state \<Rightarrow> consumer_state" where
  "processUserEvent rt eventData m st =
     handler_catch ''USER_EVENT_PROCESSING_ERROR'' eventData
       (processUserEvent_try rt eventData m st)"

definition processCriticalDatabaseChange ::
  "jsval \<Rightarrow> (string \<times> jsval) list \<Rightarrow> consumer_state \<Rightarrow> consumer_state" where
  "processCriticalDatabaseChange eventData logEntry st =
     consumer_log (Console (obj
       (set_prop ''requiresAttention'' (Some (JBool True))
         (set_prop ''alertLevel'' (Some (JStr ''HIGH''))
           (set_prop ''category'' (Some (JStr ''CRITICAL_DATABASE_CHANGE'')) logEntry))))) st"

text \<open>The \<^verbatim>\<open>try\<close> block of \<^verbatim>\<open>processDatabaseEvent\<close>.\<close>

definition processDatabaseEvent_try ::
  "consumer_runtime \<Rightarrow> jsval \<Rightarrow> message \<Rightarrow> consumer_state \<Rightarrow> consumer_state outcome" where
  "processDatabaseEvent_try rt eventData m st =
     (if nullish eventData then Thrown TypeError st
      else
        (case classifyChange eventData of
           Inl err \<Rightarrow> Thrown err st
         | Inr changeType \<Rightarrow>
            (let logEntry =
               [(''timestamp'', Some (JStr (toISOString rt (now_ms rt)))),
                (''category'', Some (JStr ''DATABASE_CHANGE_PROCESSING'')),
                (''operation'', opt_member ''operation'' eventData),
                (''table'', opt_member ''table'' eventData),
                (''recordId'', opt_member ''recordId'' eventData),
                (''userId'', opt_member ''userId'' eventData),
                (''changeType'', Some (JStr changeType)),
                (''dataSize'', Some (obj
                   [(''oldData'', Some (size_of rt (opt_member ''oldData'' eventData))),
                    (''newData'', Some (size_of rt (opt_member ''newData'' eventData)))])),
                (''kafkaMetadata'', kafkaMetadata ''database-events'' m),
                (''processingMetadata'', Some (obj
                   [(''processedAt'', Some (JStr (toISOString rt (now_ms rt)))),
                    (''processingNode'', Some (JNum (of_int (pid rt)))),
                    (''environment'', Some (JStr (environment_of rt)))]))];
                 st1 = consumer_log (Console (obj logEntry)) st
             in case consumer_isCriticalChange eventData of
                  Inl err \<Rightarrow> Thrown err st1
                | Inr critical \<Rightarrow>
                    Returned (if critical
                              then processCriticalDatabaseChange eventData logEntry st1
                              else st1))))"

definition processDatabaseEvent ::
  "consumer_runtime \<Rightarrow> jsval \<Rightarrow> message \<Rightarrow> consumer_state \<Rightarrow> consumer_state" where
  "processDatabaseEvent rt eventData m st =
     handler_catch ''DATABASE_EVENT_PROCESSING_ERROR'' eventData
       (processDatabaseEvent_try rt eventData m st)"

text \<open>The \<^verbatim>\<open>try\<close> block of \<^verbatim>\<open>processSystemLog\<close>.\<close>

definition processSystemLog_try ::
  "consumer_runtime \<Rightarrow> jsval \<Rightarrow> message \<Rightarrow> consumer_state \<Rightarrow> consumer_state outcome" where
  "processSystemLog_try rt eventData m st =
     (if nullish eventData then Thrown TypeError st
      else Returned (consumer_log (Console (obj
             [(''timestamp'', Some (JStr (toISOString rt (now_ms rt)))),
              (''category'', Some (JStr ''SYSTEM_LOG_PROCESSING'')),
              (''level'', js_or (opt_member ''level'' eventData) (Some (JStr ''info''))),
              (''event'', opt_member ''event'' eventData),
              (''data'', opt_member ''data'' eventData),
              (''kafkaMetadata'', kafkaMetadata ''system-logs'' m),
              (''processingMetadata'', Some (obj
                 [(''processedAt'', Some (JStr (toISOString rt (now_ms rt)))),
                  (''processingNode'', Some (JNum (of_int (pid rt))))]))])) st))"

definition processSystemLog ::
  "consumer_runtime \<Rightarrow> jsval \<Rightarrow> message \<Rightarrow> consumer_state \<Rightarrow> consumer_state" where
  "processSystemLog rt eventData m st =
     handler_catch ''SYSTEM_LOG_PROCESSING_ERROR'' eventData
       (processSystemLog_try rt eventData m st)"

text \<open>The \<^verbatim>\<open>switch (topic)\<close> of \<^verbatim>\<open>processMessage\<close>.\<close>

definition dispatch ::
  "consumer_runtime \<Rightarrow> string \<Rightarrow> int \<Rightarrow> jsval \<Rightarrow> message \<Rightarrow> consumer_state \<Rightarrow> consumer_state" where
  "dispatch rt tp part v m st =
     (if tp = ''user-events'' then processUserEvent rt v m st
      else if tp = ''database-events'' then processDatabaseEvent rt v m st
      else if tp = ''system-logs'' then processSystemLog rt v m st
      else consumer_log (SystemEvent ''UNKNOWN_TOPIC_MESSAGE'' ''warn''
             (obj [(''topic'', Some (JStr tp)),
                   (''partition'', Some (JNum (of_int part))),
                   (''offset'', Some (JStr (m_offset m)))])) st)"

text \<open>\<^verbatim>\<open>b ? b.length : 0\<close> of a Buffer: an object, so always truthy.\<close>

definition buffer_length :: "string option \<Rightarrow> json" where
  "buffer_length b = (case b of None \<Rightarrow> JNum 0 | Some s \<Rightarrow> JNum (of_nat (length s)))"

definition message_processed ::
  "consumer_runtime \<Rightarrow> string \<Rightarrow> int \<Rightarrow> message \<Rightarrow> consumer_state \<Rightarrow> json" where
  "message_processed rt tp part m st =
     obj [(''timestamp'', Some (JStr (toISOString rt (now_ms rt)))),
          (''category'', Some (JStr ''REALTIME_DATA_PROCESSING'')),
          (''action'', Some (JStr ''MESSAGE_PROCESSED'')),
          (''topic'', Some (JStr tp)),
          (''partition'', Some (JNum (of_int part))),
          (''offset'', Some (JStr (m_offset m))),
          (''key'', Some (str_json (m_key m))),
          (''processingTime'', Some (JNum (of_int (elapsed_ms rt)))),
          (''totalProcessed'', Some (JNum (of_nat (processedMessages st)))),
          (''uptime'', Some (JNum (of_int (now_ms rt - startTime st)))),
          (''metadata'', Some (obj
             [(''messageSize'', Some (buffer_length (m_value m))),
              (''keySize'', Some (buffer_length (m_key m))),
              (''timestamp'', Some (JStr (m_timestamp m)))]))]"

text \<open>The \<^verbatim>\<open>try\<close> block of \<^verbatim>\<open>processMessage\<close>.\<close>

definition processMessage_try ::
  "consumer_runtime \<Rightarrow> string \<Rightarrow> int \<Rightarrow> message \<Rightarrow> consumer_state \<Rightarrow> consumer_state outcome" where
  "processMessage_try rt tp part m st =
     (case (case m_value m of None \<Rightarrow> Some JNull | Some text \<Rightarrow> JSON_parse rt text) of
        None \<Rightarrow> Thrown SyntaxError st
      | Some v \<Rightarrow>
          (let st1 = st\<lparr>processedMessages := Suc (processedMessages st)\<rparr>;
               st2 = consumer_log (KafkaEvent ''MESSAGE_RECEIVED'' tp
                       (Some (JNum (of_int part))) (Some (JStr (m_offset m)))
                       (Some (str_json (m_key m))) (Some v)) st1;
               st3 = dispatch rt tp part (Some v) m st2
           in Returned (consumer_log (Console (message_processed rt tp part m st3)) st3)))"

definition processMessage ::
  "consumer_runtime \<Rightarrow> string \<Rightarrow> int \<Rightarrow> message \<Rightarrow> consumer_state \<Rightarrow> consumer_state outcome" where
  "processMessage rt tp part m st =
     (case processMessage_try rt tp part m st of
        Returned st' \<Rightarrow> Returned st'
      | Thrown err st' \<Rightarrow>
          Returned (consumer_log (SystemEvent ''MESSAGE_PROCESSING_ERROR'' ''error''
            (obj [(''topic'', Some (JStr tp)),
                  (''partition'', Some (JNum (of_int part))),
                  (''offset'', Some (JStr (m_offset m)))])) st'))"

section \<open>Example inputs\<close>

text \<open>
  A runtime at 2024-01-01T00:00:00.000Z, with \<^verbatim>\<open>toISOString\<close> given at that instant,
  the one at which the examples read it.
\<close>

definition example_runtime :: runtime where
  "example_runtime =
     \<lparr>now_ms = 1704067200000,
      toISOString = (\<lambda>t. ''2024-01-01T00:00:00.000Z''),
      config_database = ''tidb_assignment'',
      node_env = Some ''docker''\<rparr>"

text \<open>A broker that rejects every message, and one that accepts every message.\<close>

definition broker_down :: world where
  "broker_down = \<lparr>select_ok = True, update_ok = True, send_ok = (\<lambda>m. False)\<rparr>"

definition broker_up :: world where
  "broker_up = \<lparr>select_ok = True, update_ok = True, send_ok = (\<lambda>m. True)\<rparr>"

text \<open>A broker on which only the high-priority topic takes messages.\<close>

definition primary_topic_down :: world where
  "primary_topic_down =
     \<lparr>select_ok = True, update_ok = True,
      send_ok = (\<lambda>m. topic m = ''critical-database-events'')\<rparr>"

text \<open>The row the INSERT trigger writes for user 42, and the row of that user's deletion.\<close>

definition insert_row :: change where
  "insert_row =
     \<lparr>change_id = 1, table_name = ''users'', operation_type = INSERT,
      record_id = Some ''42'', old_data = JNull, new_data = JObj [(''id'', JNum 42)],
      user_id = Some 42, change_timestamp = 1704067200000, processed = False\<rparr>"

definition delete_row :: change where
  "delete_row =
     \<lparr>change_id = 7, table_name = ''users'', operation_type = DELETE,
      record_id = Some ''42'', old_data = JObj [(''id'', JNum 42)], new_data = JNull,
      user_id = Some 42, change_timestamp = 1704067200000, processed = False\<rparr>"

definition cdc_start :: "change list \<Rightarrow> cdc_state" where
  "cdc_start rows =
     \<lparr>lastProcessedId = 0, changesProcessed = 0, cdc_change_log = rows, bus = [],
      cdc_logs = []\<rparr>"

text \<open>
  The envelope of an UPDATE of user 42 as a consumer parses it, the credential a string
  before and after.
\<close>

definition update_event :: "string \<Rightarrow> string \<Rightarrow> json" where
  "update_event before after =
     JObj [(''operation'', JStr ''UPDATE''), (''table'', JStr ''users''),
           (''recordId'', JStr ''42''), (''oldData'', JObj [(''password'', JStr before)]),
           (''newData'', JObj [(''password'', JStr after)])]"

text \<open>UPDATE rows of a user with a string credential: one changes it, one does not.\<close>

definition update_row :: "string \<Rightarrow> string \<Rightarrow> change" where
  "update_row before after =
     \<lparr>change_id = 3, table_name = ''users'', operation_type = UPDATE,
      record_id = Some ''42'', old_data = JObj [(''password'', JStr before)],
      new_data = JObj [(''password'', JStr after)],
      user_id = Some 42, change_timestamp = 1704067200000, processed = False\<rparr>"

text \<open>
  A consumer runtime. Its \<^verbatim>\<open>JSON.parse\<close> is given on the texts the examples hand to it:
  \<^verbatim>\<open>null\<close> and \<^verbatim>\<open>{}\<close> parse, \<^verbatim>\<open>not json\<close> is a SyntaxError. \<^verbatim>\<open>JSON.stringify\<close> is
  called on no example.
\<close>

definition example_parse :: "string \<Rightarrow> json option" where
  "example_parse text =
     (if text = ''null'' then Some JNull
      else if text = ''{}'' then Some (JObj [])
      else None)"

definition example_consumer_runtime :: consumer_runtime where
  "example_consumer_runtime =
     \<lparr>now_ms = 1704067200000,
      toISOString = (\<lambda>t. ''2024-01-01T00:00:00.000Z''),
      config_database = ''tidb_assignment'',
      node_env = Some ''docker'',
      elapsed_ms = 1,
      pid = 17,
      JSON_stringify = (\<lambda>j. []),
      JSON_parse = example_parse\<rparr>"

definition example_message :: "string \<Rightarrow> message" where
  "example_message text =
     \<lparr>m_key = Some ''users_42'', m_value = Some text, m_offset = ''5'',
      m_timestamp = ''1704067200000'', m_partition = None\<rparr>"

definition consumer_start :: consumer_state where
  "consumer_start = \<lparr>processedMessages = 0, startTime = 1704067200000, consumer_logs = []\<rparr>"

section \<open>Strict equality and the columns\<close>

lemma strict_eq_iff: "strict_eq a b = (a = b \<and> \<not> is_reference a)"
  by (induction a b rule: strict_eq.induct) auto

lemma op_name_DELETE: "(op_name x = ''DELETE'') = (x = DELETE)"
  by (cases x) auto

lemma op_name_UPDATE: "(op_name x = ''UPDATE'') = (x = UPDATE)"
  by (cases x) auto

section \<open>Classifier\<close>

text \<open>
  C3. \<^verbatim>\<open>isCriticalChange\<close>, on the producer and on the consumer, is true exactly when
  the table is \<^verbatim>\<open>users\<close> and the operation is DELETE, or is UPDATE with a password
  that differs between the before and the after snapshot. It is true for every DELETE on
  \<^verbatim>\<open>users\<close>, false for an UPDATE on \<^verbatim>\<open>users\<close> with the password unchanged, and false
  for every operation on another table. The password of a snapshot is a value of the
  column \<^verbatim>\<open>users.password\<close>, a \<^verbatim>\<open>VARCHAR(255)\<close>, or is absent: the hypothesis asks
  no more than that the two snapshots do not both hold an array or an object there.
\<close>

theorem isCriticalChange_boundary:
  "(\<not> (is_reference (opt_member ''password'' (Some (old_data c))) \<and>
        is_reference (opt_member ''password'' (Some (new_data c)))) \<longrightarrow>
      (cdc_isCriticalChange c \<longleftrightarrow>
         table_name c = ''users'' \<and>
         (operation_type c = DELETE \<or>
          operation_type c = UPDATE \<and>
          opt_member ''password'' (Some (old_data c)) \<noteq>
            opt_member ''password'' (Some (new_data c))))) \<and>
   (\<not> nullish ev \<and>
    \<not> (is_reference (opt_member ''password'' (opt_member ''oldData'' ev)) \<and>
        is_reference (opt_member ''password'' (opt_member ''newData'' ev))) \<longrightarrow>
      consumer_isCriticalChange ev =
        Inr (opt_member ''table'' ev = Some (JStr ''users'') \<and>
             (opt_member ''operation'' ev = Some (JStr ''DELETE'') \<or>
              opt_member ''operation'' ev = Some (JStr ''UPDATE'') \<and>
              opt_member ''password'' (opt_member ''oldData'' ev) \<noteq>
                opt_member ''password'' (opt_member ''newData'' ev)))) \<and>
   (table_name c = ''users'' \<and> operation_type c = DELETE \<longrightarrow> cdc_isCriticalChange c) \<and>
   (table_name c \<noteq> ''users'' \<longrightarrow> \<not> cdc_isCriticalChange c) \<and>
   (\<not> nullish ev \<and> opt_member ''table'' ev \<noteq> Some (JStr ''users'') \<longrightarrow>
      consumer_isCriticalChange ev = Inr False)"
proof -
  have producer: "cdc_isCriticalChange c \<longleftrightarrow>
         table_name c = ''users'' \<and>
         (operation_type c = DELETE \<or>
          operation_type c = UPDATE \<and>
          opt_member ''password'' (Some (old_data c)) \<noteq>
            opt_member ''password'' (Some (new_data c)))"
    if "\<not> (is_reference (opt_member ''password'' (Some (old_data c))) \<and>
            is_reference (opt_member ''password'' (Some (new_data c))))"
    using that
    by (auto simp: cdc_isCriticalChange_def strict_eq_iff op_name_DELETE op_name_UPDATE)
  have consumer: "consumer_isCriticalChange ev =
        Inr (opt_member ''table'' ev = Some (JStr ''users'') \<and>
             (opt_member ''operation'' ev = Some (JStr ''DELETE'') \<or>
              opt_member ''operation'' ev = Some (JStr ''UPDATE'') \<and>
              opt_member ''password'' (opt_member ''oldData'' ev) \<noteq>
                opt_member ''password'' (opt_member ''newData'' ev)))"
    if "\<not> nullish ev"
      "\<not> (is_reference (opt_member ''password'' (opt_member ''oldData'' ev)) \<and>
          is_reference (opt_member ''password'' (opt_member ''newData'' ev)))"
    using that by (auto simp: consumer_isCriticalChange_def strict_eq_iff)
  have del: "cdc_isCriticalChange c" if "table_name c = ''users''" "operation_type c = DELETE"
    using that by (simp add: cdc_isCriticalChange_def)
  have other: "\<not> cdc_isCriticalChange c" if "table_name c \<noteq> ''users''"
    using that by (simp add: cdc_isCriticalChange_def)
  have other_ev: "consumer_isCriticalChange ev = Inr False"
    if "\<not> nullish ev" "opt_member ''table'' ev \<noteq> Some (JStr ''users'')"
    using that by (simp add: consumer_isCriticalChange_def strict_eq_iff)
  from producer consumer del other other_ev show ?thesis by blast
qed

theorem isCriticalChange_boundary_witness:
  "cdc_isCriticalChange (update_row ''old-hash'' ''new-hash'') \<and>
   \<not> cdc_isCriticalChange (update_row ''old-hash'' ''old-hash'') \<and>
   cdc_isCriticalChange delete_row \<and>
   \<not> cdc_isCriticalChange (delete_row\<lparr>table_name := ''user_tokens''\<rparr>) \<and>
   consumer_isCriticalChange (Some (update_event ''old-hash'' ''new-hash'')) = Inr True \<and>
   consumer_isCriticalChange (Some (update_event ''old-hash'' ''old-hash'')) = Inr False"
  using isCriticalChange_boundary [of "update_row ''old-hash'' ''new-hash''"
      "Some (update_event ''old-hash'' ''new-hash'')"]
    isCriticalChange_boundary [of "update_row ''old-hash'' ''old-hash''"
      "Some (update_event ''old-hash'' ''old-hash'')"]
    isCriticalChange_boundary [of delete_row "Some (update_event ''old-hash'' ''new-hash'')"]
    isCriticalChange_boundary [of "delete_row\<lparr>table_name := ''user_tokens''\<rparr>"
      "Some (update_event ''old-hash'' ''new-hash'')"]
  by (simp add: update_row_def delete_row_def update_event_def)

text \<open>
  C4. The producer's predicate on a row and the consumer's predicate on the envelope
  the producer builds from that row give the same boolean.
\<close>

theorem isCriticalChange_agrees:
  "consumer_isCriticalChange (Some (entry_json (mk_changeLogEntry rt c))) =
     Inr (cdc_isCriticalChange c)"
  by (auto simp: cdc_isCriticalChange_def consumer_isCriticalChange_def entry_json_def
      entry_fields_def mk_changeLogEntry_def strict_eq_iff)

text \<open>
  C7, as the code has it. \<^verbatim>\<open>assessLoginRisk\<close> gives LOW for the origin address
  \<^verbatim>\<open>'127.0.0.1'\<close>, that literal alone, and MEDIUM for every other value, the other
  loopback and local forms among them; it gives nothing but LOW and MEDIUM.
\<close>

theorem assessLoginRisk_levels:
  "(\<not> nullish loginData \<longrightarrow>
      assessLoginRisk loginData =
        Inr (if opt_member ''ipAddress'' loginData = Some (JStr ''127.0.0.1'')
             then ''LOW'' else ''MEDIUM'')) \<and>
   (\<forall>r. assessLoginRisk loginData = Inr r \<longrightarrow> r = ''LOW'' \<or> r = ''MEDIUM'')"
  by (auto simp: assessLoginRisk_def strict_eq_iff split: if_splits)

theorem assessLoginRisk_levels_witness:
  "assessLoginRisk (Some (JObj [(''ipAddress'', JStr ''127.0.0.1'')])) = Inr ''LOW'' \<and>
   assessLoginRisk (Some (JObj [(''ipAddress'', JStr ''203.0.113.5'')])) = Inr ''MEDIUM''"
  using assessLoginRisk_levels [of "Some (JObj [(''ipAddress'', JStr ''127.0.0.1'')])"]
        assessLoginRisk_levels [of "Some (JObj [(''ipAddress'', JStr ''203.0.113.5'')])"]
  by simp

text \<open>
  C7, as the claim states it, fails: the IPv6 loopback address, the IPv4-mapped
  loopback address and \<^verbatim>\<open>localhost\<close> are loopback origins and get MEDIUM.
\<close>

theorem loopback_origin_rated_medium:
  "loopback_origin ''::1'' \<and>
   assessLoginRisk (Some (JObj [(''ipAddress'', JStr ''::1'')])) = Inr ''MEDIUM'' \<and>
   loopback_origin ''::ffff:127.0.0.1'' \<and>
   assessLoginRisk (Some (JObj [(''ipAddress'', JStr ''::ffff:127.0.0.1'')])) = Inr ''MEDIUM'' \<and>
   loopback_origin ''localhost'' \<and>
   assessLoginRisk (Some (JObj [(''ipAddress'', JStr ''localhost'')])) = Inr ''MEDIUM''"
  by (simp add: loopback_origin_def assessLoginRisk_def)

text \<open>
  C9. \<^verbatim>\<open>classifyChange\<close> returns a category for every event: USER_DATA_CHANGE for the
  table \<^verbatim>\<open>users\<close>, AUTH_TOKEN_CHANGE for \<^verbatim>\<open>user_tokens\<close>, GENERAL_DATA_CHANGE for
  every other table value, also a missing one. It throws on no table.
\<close>

theorem classifyChange_total:
  "\<not> nullish eventData \<Longrightarrow>
     classifyChange eventData =
       Inr (if opt_member ''table'' eventData = Some (JStr ''users'') then ''USER_DATA_CHANGE''
            else if opt_member ''table'' eventData = Some (JStr ''user_tokens'')
              then ''AUTH_TOKEN_CHANGE''
            else ''GENERAL_DATA_CHANGE'')"
  by (auto simp: classifyChange_def strict_eq_iff)

theorem classifyChange_total_witness:
  "classifyChange (Some (JObj [(''table'', JStr ''users'')])) = Inr ''USER_DATA_CHANGE'' \<and>
   classifyChange (Some (JObj [(''table'', JStr ''user_tokens'')])) = Inr ''AUTH_TOKEN_CHANGE'' \<and>
   classifyChange (Some (JObj [(''table'', JStr ''orders'')])) = Inr ''GENERAL_DATA_CHANGE'' \<and>
   classifyChange (Some (JObj [])) = Inr ''GENERAL_DATA_CHANGE''"
  using classifyChange_total [of "Some (JObj [(''table'', JStr ''users'')])"]
        classifyChange_total [of "Some (JObj [(''table'', JStr ''user_tokens'')])"]
        classifyChange_total [of "Some (JObj [(''table'', JStr ''orders'')])"]
        classifyChange_total [of "Some (JObj [])"]
  by simp

text \<open>
  C10. On a row that \<^verbatim>\<open>isCriticalChange\<close> accepts, the tag of the escalated envelope
  is USER_ACCOUNT_DELETED for a DELETE and USER_DATA_MODIFIED for an UPDATE, never
  UNKNOWN.
\<close>

theorem critical_tag_never_unknown:
  "cdc_isCriticalChange c \<Longrightarrow>
     securityImplications (mk_criticalLogEntry c e) = getSecurityImplications c \<and>
     getSecurityImplications c =
       (if operation_type c = DELETE then ''USER_ACCOUNT_DELETED'' else ''USER_DATA_MODIFIED'') \<and>
     operation_type c \<noteq> INSERT \<and>
     getSecurityImplications c \<noteq> ''UNKNOWN''"
  by (auto simp: cdc_isCriticalChange_def getSecurityImplications_def mk_criticalLogEntry_def
      op_name_DELETE op_name_UPDATE split: if_splits)

theorem critical_tag_never_unknown_witness:
  "cdc_isCriticalChange delete_row \<and>
   getSecurityImplications delete_row = ''USER_ACCOUNT_DELETED'' \<and>
   cdc_isCriticalChange (update_row ''old-hash'' ''new-hash'') \<and>
   getSecurityImplications (update_row ''old-hash'' ''new-hash'') = ''USER_DATA_MODIFIED''"
proof -
  have d: "cdc_isCriticalChange delete_row"
    by (simp add: cdc_isCriticalChange_def delete_row_def)
  have u: "cdc_isCriticalChange (update_row ''old-hash'' ''new-hash'')"
    by (simp add: cdc_isCriticalChange_def update_row_def)
  show ?thesis
    using d u critical_tag_never_unknown [OF d] critical_tag_never_unknown [OF u]
    by (simp add: delete_row_def update_row_def)
qed

section \<open>Publisher\<close>

text \<open>
  C5, as the code has it. \<^verbatim>\<open>processChange\<close> sends the ordinary envelope of the row on
  \<^verbatim>\<open>database-events\<close> and, when the row is critical, then sends the augmented
  envelope on \<^verbatim>\<open>critical-database-events\<close>: the same properties under the category
  CRITICAL_DATABASE_CHANGE, with alertLevel HIGH, requiresAttention true and the security
  tag. The two sends do not depend on each other: the bus receives the messages the
  broker accepts, the primary one first, so both when both are accepted and the
  augmented one alone when the primary send is rejected. For a row that is not critical
  only the primary message is sent.
\<close>

theorem processChange_deliveries:
  "bus (processChange rt w c st) =
     bus st @ filter (send_ok w)
       (primary_message rt (mk_changeLogEntry rt c) #
        (if cdc_isCriticalChange c then [critical_message rt c (mk_changeLogEntry rt c)] else [])) \<and>
   primary_message rt (mk_changeLogEntry rt c) =
     \<lparr>topic = ''database-events'',
      msg_key = table_name c @ ''_'' @ (case record_id c of None \<Rightarrow> ''null'' | Some x \<Rightarrow> x),
      payload = JObj
          [(''timestamp'', JStr (toISOString rt (now_ms rt))),
           (''category'', JStr ''DATABASE_CHANGE''),
           (''operation'', JStr (op_name (operation_type c))),
           (''table'', JStr (table_name c)),
           (''recordId'', (case record_id c of None \<Rightarrow> JNull | Some x \<Rightarrow> JStr x)),
           (''userId'', (case user_id c of None \<Rightarrow> JNull | Some n \<Rightarrow> JNum (of_int n))),
           (''oldData'', old_data c),
           (''newData'', new_data c),
           (''changeTimestamp'', JStr (toISOString rt (change_timestamp c))),
           (''cdcMetadata'', JObj
              [(''cdcId'', JNum (of_int (change_id c))),
               (''processedAt'', JStr (toISOString rt (now_ms rt))),
               (''processingDelay'', JNum (of_int (now_ms rt - change_timestamp c)))]),
           (''metadata'', JObj
              [(''database'', JStr (config_database rt)),
               (''environment'', JStr (case node_env rt of None \<Rightarrow> ''development''
                  | Some e \<Rightarrow> if e = [] then ''development'' else e)),
               (''cdcService'', JStr ''tidb-cdc'')])],
      msg_timestamp = now_ms rt\<rparr> \<and>
   critical_message rt c (mk_changeLogEntry rt c) =
     \<lparr>topic = ''critical-database-events'',
      msg_key = ''CRITICAL_'' @ table_name c @ ''_'' @
        (case record_id c of None \<Rightarrow> ''null'' | Some x \<Rightarrow> x),
      payload = JObj
          [(''timestamp'', JStr (toISOString rt (now_ms rt))),
           (''category'', JStr ''CRITICAL_DATABASE_CHANGE''),
           (''operation'', JStr (op_name (operation_type c))),
           (''table'', JStr (table_name c)),
           (''recordId'', (case record_id c of None \<Rightarrow> JNull | Some x \<Rightarrow> JStr x)),
           (''userId'', (case user_id c of None \<Rightarrow> JNull | Some n \<Rightarrow> JNum (of_int n))),
           (''oldData'', old_data c),
           (''newData'', new_data c),
           (''changeTimestamp'', JStr (toISOString rt (change_timestamp c))),
           (''cdcMetadata'', JObj
              [(''cdcId'', JNum (of_int (change_id c))),
               (''processedAt'', JStr (toISOString rt (now_ms rt))),
               (''processingDelay'', JNum (of_int (now_ms rt - change_timestamp c)))]),
           (''metadata'', JObj
              [(''database'', JStr (config_database rt)),
               (''environment'', JStr (case node_env rt of None \<Rightarrow> ''development''
                  | Some e \<Rightarrow> if e = [] then ''development'' else e)),
               (''cdcService'', JStr ''tidb-cdc'')]),
           (''alertLevel'', JStr ''HIGH''),
           (''requiresAttention'', JBool True),
           (''securityImplications'', JStr (getSecurityImplications c))],
      msg_timestamp = now_ms rt\<rparr>"
proof -
  have sent: "bus (sendChangeToKafka rt w e s) = bus s @ filter (send_ok w) [primary_message rt e]"
    for e s
    by (simp add: sendChangeToKafka_def producer_send_def cdc_log_def)
  have crit: "bus (case processCriticalChange rt w c e s of Returned s' \<Rightarrow> s'
                   | Thrown err s' \<Rightarrow> cdc_log x s') =
              bus s @ filter (send_ok w) [critical_message rt c e]" for e s x
    by (simp add: processCriticalChange_def producer_send_def cdc_log_def)
  have deliveries: "bus (processChange rt w c st) =
     bus st @ filter (send_ok w)
       (primary_message rt (mk_changeLogEntry rt c) #
        (if cdc_isCriticalChange c then [critical_message rt c (mk_changeLogEntry rt c)] else []))"
    unfolding processChange_def Let_def
    by (simp add: sent crit cdc_log_def)
  have primary: "primary_message rt (mk_changeLogEntry rt c) =
     \<lparr>topic = ''database-events'',
      msg_key = table_name c @ ''_'' @ (case record_id c of None \<Rightarrow> ''null'' | Some x \<Rightarrow> x),
      payload = JObj
          [(''timestamp'', JStr (toISOString rt (now_ms rt))),
           (''category'', JStr ''DATABASE_CHANGE''),
           (''operation'', JStr (op_name (operation_type c))),
           (''table'', JStr (table_name c)),
           (''recordId'', (case record_id c of None \<Rightarrow> JNull | Some x \<Rightarrow> JStr x)),
           (''userId'', (case user_id c of None \<Rightarrow> JNull | Some n \<Rightarrow> JNum (of_int n))),
           (''oldData'', old_data c),
           (''newData'', new_data c),
           (''changeTimestamp'', JStr (toISOString rt (change_timestamp c))),
           (''cdcMetadata'', JObj
              [(''cdcId'', JNum (of_int (change_id c))),
               (''processedAt'', JStr (toISOString rt (now_ms rt))),
               (''processingDelay'', JNum (of_int (now_ms rt - change_timestamp c)))]),
           (''metadata'', JObj
              [(''database'', JStr (config_database rt)),
               (''environment'', JStr (case node_env rt of None \<Rightarrow> ''development''
                  | Some e \<Rightarrow> if e = [] then ''development'' else e)),
               (''cdcService'', JStr ''tidb-cdc'')])],
      msg_timestamp = now_ms rt\<rparr>"
    by (simp add: primary_message_def entry_json_def entry_fields_def mk_changeLogEntry_def
        str_json_def int_json_def template_def environment_of_def)
  have critical: "critical_message rt c (mk_changeLogEntry rt c) =
     \<lparr>topic = ''critical-database-events'',
      msg_key = ''CRITICAL_'' @ table_name c @ ''_'' @
        (case record_id c of None \<Rightarrow> ''null'' | Some x \<Rightarrow> x),
      payload = JObj
          [(''timestamp'', JStr (toISOString rt (now_ms rt))),
           (''category'', JStr ''CRITICAL_DATABASE_CHANGE''),
           (''operation'', JStr (op_name (operation_type c))),
           (''table'', JStr (table_name c)),
           (''recordId'', (case record_id c of None \<Rightarrow> JNull | Some x \<Rightarrow> JStr x)),
           (''userId'', (case user_id c of None \<Rightarrow> JNull | Some n \<Rightarrow> JNum (of_int n))),
           (''oldData'', old_data c),
           (''newData'', new_data c),
           (''changeTimestamp'', JStr (toISOString rt (change_timestamp c))),
           (''cdcMetadata'', JObj
              [(''cdcId'', JNum (of_int (change_id c))),
               (''processedAt'', JStr (toISOString rt (now_ms rt))),
               (''processingDelay'', JNum (of_int (now_ms rt - change_timestamp c)))]),
           (''metadata'', JObj
              [(''database'', JStr (config_database rt)),
               (''environment'', JStr (case node_env rt of None \<Rightarrow> ''development''
                  | Some e \<Rightarrow> if e = [] then ''development'' else e)),
               (''cdcService'', JStr ''tidb-cdc'')]),
           (''alertLevel'', JStr ''HIGH''),
           (''requiresAttention'', JBool True),
           (''securityImplications'', JStr (getSecurityImplications c))],
      msg_timestamp = now_ms rt\<rparr>"
    by (simp add: critical_message_def critical_json_def entry_fields_def
        mk_criticalLogEntry_def mk_changeLogEntry_def str_json_def int_json_def template_def
        environment_of_def)
  from deliveries primary critical show ?thesis by blast
qed

theorem processChange_deliveries_witness:
  "map topic (bus (processChange example_runtime broker_up delete_row (cdc_start [delete_row]))) =
     [''database-events'', ''critical-database-events''] \<and>
   map (member ''alertLevel'' \<circ> payload)
     (bus (processChange example_runtime broker_up delete_row (cdc_start [delete_row]))) =
     [None, Some (JStr ''HIGH'')] \<and>
   map (member ''table'' \<circ> payload)
     (bus (processChange example_runtime broker_up delete_row (cdc_start [delete_row]))) =
     [Some (JStr ''users''), Some (JStr ''users'')] \<and>
   map topic (bus (processChange example_runtime broker_up insert_row (cdc_start [insert_row]))) =
     [''database-events'']"
proof -
  have d: "cdc_isCriticalChange delete_row"
    by (simp add: cdc_isCriticalChange_def delete_row_def)
  have i: "\<not> cdc_isCriticalChange insert_row"
    by (simp add: cdc_isCriticalChange_def insert_row_def)
  have bus_delete:
    "bus (processChange example_runtime broker_up delete_row (cdc_start [delete_row])) =
       [primary_message example_runtime (mk_changeLogEntry example_runtime delete_row),
        critical_message example_runtime delete_row
          (mk_changeLogEntry example_runtime delete_row)]"
    using processChange_deliveries [of example_runtime broker_up delete_row "cdc_start [delete_row]"]
    by (simp add: d broker_up_def cdc_start_def)
  have bus_insert:
    "bus (processChange example_runtime broker_up insert_row (cdc_start [insert_row])) =
       [primary_message example_runtime (mk_changeLogEntry example_runtime insert_row)]"
    using processChange_deliveries [of example_runtime broker_up insert_row "cdc_start [insert_row]"]
    by (simp add: i broker_up_def cdc_start_def)
  show ?thesis
    unfolding bus_delete bus_insert
    by (simp add: primary_message_def critical_message_def critical_json_def entry_json_def
        entry_fields_def mk_criticalLogEntry_def mk_changeLogEntry_def delete_row_def)
qed

text \<open>
  C5, as the claim states it, fails: when the broker rejects the message for
  \<^verbatim>\<open>database-events\<close> and accepts the one for \<^verbatim>\<open>critical-database-events\<close>, the
  deletion of user 42 reaches the bus as the augmented envelope alone.
\<close>

theorem critical_delivered_without_primary:
  "cdc_isCriticalChange delete_row \<and>
   map topic (bus (processChange example_runtime primary_topic_down delete_row
                     (cdc_start [delete_row]))) = [''critical-database-events'']"
  by (simp add: processChange_def sendChangeToKafka_def processCriticalChange_def
      producer_send_def primary_message_def critical_message_def cdc_isCriticalChange_def
      cdc_log_def cdc_start_def delete_row_def primary_topic_down_def Let_def)

text \<open>
  C6, as the code has it. The key of the primary message is \<^verbatim>\<open>table_recordId\<close>, with an
  underscore; the key of the high-priority message is that key after the prefix
  \<^verbatim>\<open>CRITICAL_\<close>, so the two deliveries of one row carry different keys. On each topic,
  rows of one table and record id carry one key.
\<close>

theorem message_keys:
  "msg_key (primary_message rt (mk_changeLogEntry rt c)) =
     table_name c @ ''_'' @ template (record_id c) \<and>
   msg_key (critical_message rt c (mk_changeLogEntry rt c)) =
     ''CRITICAL_'' @ msg_key (primary_message rt (mk_changeLogEntry rt c)) \<and>
   msg_key (critical_message rt c (mk_changeLogEntry rt c)) \<noteq>
     msg_key (primary_message rt (mk_changeLogEntry rt c)) \<and>
   (table_name c = table_name c' \<and> record_id c = record_id c' \<longrightarrow>
      msg_key (primary_message rt (mk_changeLogEntry rt c)) =
        msg_key (primary_message rt' (mk_changeLogEntry rt' c')) \<and>
      msg_key (critical_message rt c (mk_changeLogEntry rt c)) =
        msg_key (critical_message rt' c' (mk_changeLogEntry rt' c')))"
  by (simp add: primary_message_def critical_message_def mk_changeLogEntry_def)

theorem message_keys_witness:
  "msg_key (primary_message example_runtime (mk_changeLogEntry example_runtime insert_row)) =
     msg_key (primary_message example_runtime (mk_changeLogEntry example_runtime delete_row)) \<and>
   msg_key (critical_message example_runtime delete_row
              (mk_changeLogEntry example_runtime delete_row)) = ''CRITICAL_users_42''"
  using message_keys [of example_runtime insert_row delete_row example_runtime]
    message_keys [of example_runtime delete_row delete_row example_runtime]
  by (simp add: insert_row_def delete_row_def template_def)

text \<open>
  C6, as the claim states it, fails: for the deletion of user 42 the primary key is
  \<^verbatim>\<open>users_42\<close>, not \<^verbatim>\<open>users:42\<close>, and the high-priority key is another one.
\<close>

theorem message_keys_not_colon_not_shared:
  "msg_key (primary_message example_runtime (mk_changeLogEntry example_runtime delete_row)) =
     ''users_42'' \<and>
   msg_key (primary_message example_runtime (mk_changeLogEntry example_runtime delete_row)) \<noteq>
     ''users:42'' \<and>
   msg_key (critical_message example_runtime delete_row
              (mk_changeLogEntry example_runtime delete_row)) = ''CRITICAL_users_42'' \<and>
   msg_key (critical_message example_runtime delete_row
              (mk_changeLogEntry example_runtime delete_row)) \<noteq>
     msg_key (primary_message example_runtime (mk_changeLogEntry example_runtime delete_row))"
  by (simp add: primary_message_def critical_message_def mk_changeLogEntry_def delete_row_def
      template_def)

section \<open>Poller\<close>

lemma processChange_rows: "cdc_change_log (processChange rt w c st) = cdc_change_log st"
  by (simp add: processChange_def sendChangeToKafka_def processCriticalChange_def
      producer_send_def cdc_log_def Let_def)

lemma processChange_bus:
  "set (bus (processChange rt w c st)) \<subseteq> set (bus st) \<union> {m. send_ok w m}"
  by (auto simp: processChange_def sendChangeToKafka_def processCriticalChange_def
      producer_send_def cdc_log_def Let_def split: if_splits)

lemma process_loop_rows:
  "cdc_change_log (process_loop rt w cs st) = cdc_change_log st"
  by (induction cs arbitrary: st) (simp_all add: processChange_rows)

lemma process_loop_bus:
  "set (bus (process_loop rt w cs st)) \<subseteq> set (bus st) \<union> {m. send_ok w m}"
proof (induction cs arbitrary: st)
  case Nil
  then show ?case by simp
next
  case (Cons c cs)
  have "set (bus (process_loop rt w (c # cs) st)) \<subseteq>
          set (bus (processChange rt w c st)) \<union> {m. send_ok w m}"
    using Cons.IH [of "(processChange rt w c st)
          \<lparr>lastProcessedId := change_id c,
           changesProcessed := Suc (changesProcessed (processChange rt w c st))\<rparr>"]
    by simp
  then show ?case using processChange_bus [of rt w c st] by blast
qed

lemma processChange_logs:
  "set (cdc_logs st) \<subseteq> set (cdc_logs (processChange rt w c st))"
  by (auto simp: processChange_def sendChangeToKafka_def processCriticalChange_def
      producer_send_def cdc_log_def Let_def)

lemma process_loop_logs:
  "set (cdc_logs st) \<subseteq> set (cdc_logs (process_loop rt w cs st))"
proof (induction cs arbitrary: st)
  case Nil
  then show ?case by simp
next
  case (Cons c cs)
  have "set (cdc_logs (processChange rt w c st)) \<subseteq> set (cdc_logs (process_loop rt w (c # cs) st))"
    using Cons.IH [of "(processChange rt w c st)
          \<lparr>lastProcessedId := change_id c,
           changesProcessed := Suc (changesProcessed (processChange rt w c st))\<rparr>"]
    by simp
  then show ?case using processChange_logs [of st rt w c] by blast
qed

lemma processChange_send_error_logged:
  "\<not> send_ok w (primary_message rt (mk_changeLogEntry rt c)) \<Longrightarrow>
     SystemEvent ''CDC_KAFKA_SEND_ERROR'' ''error''
       (JObj [(''change'', entry_json (mk_changeLogEntry rt c))])
     \<in> set (cdc_logs (processChange rt w c st))"
  by (simp add: processChange_def sendChangeToKafka_def processCriticalChange_def
      producer_send_def cdc_log_def Let_def)

lemma processChange_critical_error_logged:
  "cdc_isCriticalChange c \<Longrightarrow>
   \<not> send_ok w (critical_message rt c (mk_changeLogEntry rt c)) \<Longrightarrow>
     SystemEvent ''CDC_CHANGE_PROCESSING_ERROR'' ''error''
       (JObj [(''changeId'', JNum (of_int (change_id c)))])
     \<in> set (cdc_logs (processChange rt w c st))"
  by (simp add: processChange_def sendChangeToKafka_def processCriticalChange_def
      producer_send_def cdc_log_def Let_def)

lemma process_loop_logged:
  assumes "\<And>s. e \<in> set (cdc_logs (processChange rt w c s))" and "c \<in> set cs"
  shows "e \<in> set (cdc_logs (process_loop rt w cs st))"
  using assms(2)
proof (induction cs arbitrary: st)
  case Nil
  then show ?case by simp
next
  case (Cons x xs)
  let ?s = "(processChange rt w x st)
          \<lparr>lastProcessedId := change_id x,
           changesProcessed := Suc (changesProcessed (processChange rt w x st))\<rparr>"
  show ?case
  proof (cases "c = x")
    case True
    have "e \<in> set (cdc_logs ?s)" using assms(1) [of st] True by simp
    then show ?thesis using process_loop_logs [of ?s rt w xs] by auto
  next
    case False
    with Cons.prems have "c \<in> set xs" by simp
    from Cons.IH [OF this, of ?s] show ?thesis by simp
  qed
qed

lemma process_loop_cursor:
  "cs \<noteq> [] \<Longrightarrow> lastProcessedId (process_loop rt w cs st) = change_id (last cs)"
proof (induction cs arbitrary: st)
  case Nil
  then show ?case by simp
next
  case (Cons c cs)
  then show ?case by (cases cs) simp_all
qed

lemma fold_max_ge: "(a::int) \<le> fold max xs a"
  by (induction xs arbitrary: a) (auto intro: order_trans [OF max.cobounded2])

lemma fold_max_bound: "x \<in> set xs \<Longrightarrow> (x::int) \<le> fold max xs a"
proof (induction xs arbitrary: a)
  case Nil
  then show ?case by simp
next
  case (Cons y ys)
  show ?case
  proof (cases "x = y")
    case True
    have "y \<le> max y a" by simp
    also have "\<dots> \<le> fold max ys (max y a)" by (rule fold_max_ge)
    finally show ?thesis using True by simp
  next
    case False
    with Cons show ?thesis by simp
  qed
qed

lemma math_max_bound: "r \<in> set (c # cs) \<Longrightarrow> change_id r \<le> math_max c cs"
  using fold_max_ge [of "change_id c" "map change_id cs"]
    fold_max_bound [of "change_id r" "map change_id cs" "change_id c"]
  by (auto simp: math_max_def)

lemma select_changes_sorted: "sorted (map change_id (select_changes cursor rows))"
  by (simp add: select_changes_def take_map [symmetric] sorted_wrt_take)

lemma sorted_le_last: "sorted xs \<Longrightarrow> x \<in> set xs \<Longrightarrow> (x::int) \<le> last xs"
  by (induction xs) (auto split: if_splits)

lemma select_changes_le_last:
  assumes "c \<in> set (select_changes cursor rows)"
  shows "change_id c \<le> change_id (last (select_changes cursor rows))"
proof -
  let ?b = "select_changes cursor rows"
  from assms have ne: "?b \<noteq> []" by auto
  have "change_id c \<in> set (map change_id ?b)" using assms by simp
  then have "change_id c \<le> last (map change_id ?b)"
    by (rule sorted_le_last [OF select_changes_sorted])
  then show ?thesis using ne by (simp add: last_map)
qed

lemma select_changes_above: "c \<in> set (select_changes cursor rows) \<Longrightarrow> cursor < change_id c"
  by (auto simp: select_changes_def dest!: in_set_takeD)

lemma select_changes_rows: "c \<in> set (select_changes cursor rows) \<Longrightarrow> c \<in> set rows"
  by (auto simp: select_changes_def dest!: in_set_takeD)

lemma pollForChanges_batch:
  assumes "select_ok w" and "select_changes (lastProcessedId st) (cdc_change_log st) = c # cs"
  shows "lastProcessedId (pollForChanges rt w st) = change_id (last (c # cs))"
    and "cdc_change_log (pollForChanges rt w st) =
           (if update_ok w then mark_processed (math_max c cs) (cdc_change_log st)
            else cdc_change_log st)"
    and "set (bus (pollForChanges rt w st)) \<subseteq> set (bus st) \<union> {m. send_ok w m}"
    and "set (cdc_logs (process_loop rt w (c # cs) (cdc_log (Processing (length (c # cs))) st)))
           \<subseteq> set (cdc_logs (pollForChanges rt w st))"
proof -
  let ?st1 = "process_loop rt w (c # cs) (cdc_log (Processing (length (c # cs))) st)"
  have p: "pollForChanges rt w st =
      (if update_ok w
       then ?st1\<lparr>cdc_change_log := mark_processed (math_max c cs) (cdc_change_log ?st1)\<rparr>
       else poll_error ?st1)"
    using assms by (simp add: pollForChanges_def Let_def)
  have rows: "cdc_change_log ?st1 = cdc_change_log st"
    by (simp add: process_loop_rows processChange_rows cdc_log_def)
  have cur: "lastProcessedId ?st1 = change_id (last (c # cs))"
    by (rule process_loop_cursor) simp
  have b: "set (bus ?st1) \<subseteq> set (bus st) \<union> {m. send_ok w m}"
    using process_loop_bus [of rt w "c # cs" "cdc_log (Processing (length (c # cs))) st"]
    by (simp add: cdc_log_def)
  show "lastProcessedId (pollForChanges rt w st) = change_id (last (c # cs))"
    using cur by (simp add: p poll_error_def cdc_log_def)
  show "cdc_change_log (pollForChanges rt w st) =
           (if update_ok w then mark_processed (math_max c cs) (cdc_change_log st)
            else cdc_change_log st)"
    using rows by (simp add: p poll_error_def cdc_log_def)
  show "set (bus (pollForChanges rt w st)) \<subseteq> set (bus st) \<union> {m. send_ok w m}"
    using b by (simp add: p poll_error_def cdc_log_def)
  show "set (cdc_logs ?st1) \<subseteq> set (cdc_logs (pollForChanges rt w st))"
    by (auto simp: p poll_error_def cdc_log_def)
qed

text \<open>
  C1, as the code has it. A failed publish is caught and logged inside
  \<^verbatim>\<open>sendChangeToKafka\<close> and \<^verbatim>\<open>processChange\<close> and never reaches \<^verbatim>\<open>pollForChanges\<close>.
  So for every record of the batch, whatever the broker did with it: only messages the
  broker accepted are on the bus, the cursor ends at or beyond the record's id, the
  batch UPDATE (when it succeeds) leaves the record processed, and the next SELECT
  does not return the record: it is not retried. A rejected primary send leaves the
  event CDC_KAFKA_SEND_ERROR with the record's envelope in the log, a rejected
  high-priority send the event CDC_CHANGE_PROCESSING_ERROR with the record's id.
\<close>

theorem publish_failure_not_retried:
  assumes "select_ok w"
    and "c \<in> set (select_changes (lastProcessedId st) (cdc_change_log st))"
  shows "set (bus (pollForChanges rt w st)) \<subseteq> set (bus st) \<union> {m. send_ok w m} \<and>
         change_id c \<le> lastProcessedId (pollForChanges rt w st) \<and>
         (update_ok w \<longrightarrow>
            (\<forall>r \<in> set (cdc_change_log (pollForChanges rt w st)).
               change_id r = change_id c \<longrightarrow> processed r)) \<and>
         c \<notin> set (select_changes (lastProcessedId (pollForChanges rt w st))
                     (cdc_change_log (pollForChanges rt w st))) \<and>
         (\<not> send_ok w (primary_message rt (mk_changeLogEntry rt c)) \<longrightarrow>
            SystemEvent ''CDC_KAFKA_SEND_ERROR'' ''error''
              (JObj [(''change'', entry_json (mk_changeLogEntry rt c))])
            \<in> set (cdc_logs (pollForChanges rt w st))) \<and>
         (cdc_isCriticalChange c \<and>
          \<not> send_ok w (critical_message rt c (mk_changeLogEntry rt c)) \<longrightarrow>
            SystemEvent ''CDC_CHANGE_PROCESSING_ERROR'' ''error''
              (JObj [(''changeId'', JNum (of_int (change_id c)))])
            \<in> set (cdc_logs (pollForChanges rt w st)))"
proof -
  let ?b = "select_changes (lastProcessedId st) (cdc_change_log st)"
  let ?st' = "pollForChanges rt w st"
  from assms(2) obtain d ds where b: "?b = d # ds" by (cases ?b) auto
  note facts = pollForChanges_batch [OF assms(1) b]
  have cur: "change_id c \<le> lastProcessedId ?st'"
    using select_changes_le_last [OF assms(2)] by (simp add: facts(1) b)
  have mx: "change_id c \<le> math_max d ds"
    using assms(2) math_max_bound [of c d ds] by (simp add: b)
  have marked: "\<forall>r \<in> set (cdc_change_log ?st'). change_id r = change_id c \<longrightarrow> processed r"
    if "update_ok w"
    using that mx by (auto simp: facts(2) mark_processed_def)
  have gone: "c \<notin> set (select_changes (lastProcessedId ?st') (cdc_change_log ?st'))"
    using cur select_changes_above [of c "lastProcessedId ?st'" "cdc_change_log ?st'"] by auto
  have inb: "c \<in> set (d # ds)" using assms(2) by (simp add: b)
  have primary: "SystemEvent ''CDC_KAFKA_SEND_ERROR'' ''error''
              (JObj [(''change'', entry_json (mk_changeLogEntry rt c))])
            \<in> set (cdc_logs ?st')"
    if "\<not> send_ok w (primary_message rt (mk_changeLogEntry rt c))"
    using process_loop_logged [OF processChange_send_error_logged [OF that] inb]
      facts(4) by blast
  have critical: "SystemEvent ''CDC_CHANGE_PROCESSING_ERROR'' ''error''
              (JObj [(''changeId'', JNum (of_int (change_id c)))])
            \<in> set (cdc_logs ?st')"
    if "cdc_isCriticalChange c" "\<not> send_ok w (critical_message rt c (mk_changeLogEntry rt c))"
    using process_loop_logged [OF processChange_critical_error_logged [OF that] inb]
      facts(4) by blast
  from facts(3) cur marked gone primary critical show ?thesis by blast
qed

theorem publish_failure_not_retried_witness:
  "select_ok broker_down \<and>
   insert_row \<in> set (select_changes (lastProcessedId (cdc_start [insert_row]))
                       (cdc_change_log (cdc_start [insert_row]))) \<and>
   change_id insert_row \<le>
     lastProcessedId (pollForChanges example_runtime broker_down (cdc_start [insert_row])) \<and>
   insert_row \<notin> set (select_changes
     (lastProcessedId (pollForChanges example_runtime broker_down (cdc_start [insert_row])))
     (cdc_change_log (pollForChanges example_runtime broker_down (cdc_start [insert_row])))) \<and>
   SystemEvent ''CDC_KAFKA_SEND_ERROR'' ''error''
     (JObj [(''change'', entry_json (mk_changeLogEntry example_runtime insert_row))])
   \<in> set (cdc_logs (pollForChanges example_runtime broker_down (cdc_start [insert_row])))"
proof -
  have h1: "select_ok broker_down"
    by (simp add: broker_down_def)
  have h2: "insert_row \<in> set (select_changes (lastProcessedId (cdc_start [insert_row]))
                                (cdc_change_log (cdc_start [insert_row])))"
    by (simp add: select_changes_def cdc_start_def insert_row_def)
  have h3: "\<not> send_ok broker_down
                (primary_message example_runtime (mk_changeLogEntry example_runtime insert_row))"
    by (simp add: broker_down_def)
  from publish_failure_not_retried [OF h1 h2, of example_runtime] h1 h2 h3
  show ?thesis by blast
qed

text \<open>
  C1, as the claim states it, fails: with the broker rejecting every message, one cycle
  over the unprocessed row 1 leaves the bus empty, the cursor at 1 and the row
  processed, and the next SELECT returns nothing.
\<close>

theorem publish_failure_still_processed:
  "bus (pollForChanges example_runtime broker_down (cdc_start [insert_row])) = [] \<and>
   lastProcessedId (pollForChanges example_runtime broker_down (cdc_start [insert_row])) = 1 \<and>
   map processed (cdc_change_log
     (pollForChanges example_runtime broker_down (cdc_start [insert_row]))) = [True] \<and>
   select_changes
     (lastProcessedId (pollForChanges example_runtime broker_down (cdc_start [insert_row])))
     (cdc_change_log (pollForChanges example_runtime broker_down (cdc_start [insert_row]))) = []"
  by (simp add: pollForChanges_def select_changes_def cdc_start_def insert_row_def
      broker_down_def processChange_def sendChangeToKafka_def producer_send_def
      cdc_isCriticalChange_def cdc_log_def mark_processed_def math_max_def Let_def)

text \<open>
  C2, as the code has it. A poller cycle leaves every row of the change log as it was
  or turns its flag from false to true, never back; it does so only in the batch UPDATE
  that follows the publish loop, on rows whose id is at most an id of the batch. The
  flag does not wait for a publish to succeed.
\<close>

theorem processed_only_set:
  "list_all2
     (\<lambda>before after.
        after = before \<or>
        (\<not> processed before \<and> after = before\<lparr>processed := True\<rparr> \<and>
         select_ok w \<and> update_ok w \<and>
         (\<exists>c \<in> set (select_changes (lastProcessedId st) (cdc_change_log st)).
            change_id before \<le> change_id c)))
     (cdc_change_log st) (cdc_change_log (pollForChanges rt w st))"
proof (cases "select_ok w")
  case False
  then show ?thesis
    by (simp add: pollForChanges_def poll_error_def cdc_log_def list_all2_same)
next
  case True
  show ?thesis
  proof (cases "select_changes (lastProcessedId st) (cdc_change_log st)")
    case Nil
    then show ?thesis using True by (simp add: pollForChanges_def list_all2_same)
  next
    case (Cons c cs)
    note facts = pollForChanges_batch [OF True Cons]
    show ?thesis
    proof (cases "update_ok w")
      case False
      then show ?thesis by (simp add: facts(2) list_all2_same)
    next
      case u: True
      have mx: "\<exists>x \<in> set (c # cs). math_max c cs \<le> change_id x"
      proof -
        have "fold max xs a \<in> set (a # xs)" for xs and a :: int
          by (induction xs arbitrary: a) (auto simp: max_def)
        from this [of "map change_id cs" "change_id c"] show ?thesis
          by (auto simp: math_max_def)
      qed
      have "list_all2
         (\<lambda>before after.
            after = before \<or>
            (\<not> processed before \<and> after = before\<lparr>processed := True\<rparr> \<and>
             select_ok w \<and> update_ok w \<and>
             (\<exists>x \<in> set (c # cs). change_id before \<le> change_id x)))
         rows (mark_processed (math_max c cs) rows)" for rows
        unfolding mark_processed_def list_all2_map2
        by (rule list_all2_refl) (use True u mx in \<open>auto intro: order_trans\<close>)
      then show ?thesis using u by (simp add: facts(2) Cons)
    qed
  qed
qed

theorem processed_only_set_witness:
  "cdc_change_log (pollForChanges example_runtime broker_up
     (cdc_start [insert_row\<lparr>processed := True\<rparr>, delete_row])) =
     [insert_row\<lparr>processed := True\<rparr>, delete_row\<lparr>processed := True\<rparr>]"
  using processed_only_set [of broker_up
      "cdc_start [insert_row\<lparr>processed := True\<rparr>, delete_row]" example_runtime]
  by (simp add: pollForChanges_def select_changes_def cdc_start_def insert_row_def
      delete_row_def broker_up_def process_loop_rows processChange_rows cdc_log_def
      mark_processed_def math_max_def Let_def)

text \<open>
  C2, as the claim states it, fails: with the broker rejecting every message, the
  deletion row 7 is marked processed while nothing was handed to the bus; the cycle
  logged both failed sends.
\<close>

theorem unpublished_marked_processed:
  "bus (pollForChanges example_runtime broker_down (cdc_start [delete_row])) = [] \<and>
   map processed (cdc_change_log
     (pollForChanges example_runtime broker_down (cdc_start [delete_row]))) = [True] \<and>
   map (\<lambda>e. case e of SystemEvent ev lv d \<Rightarrow> ev | _ \<Rightarrow> [])
     (cdc_logs (pollForChanges example_runtime broker_down (cdc_start [delete_row]))) =
     [[], [], [], ''CDC_KAFKA_SEND_ERROR'', [], ''CDC_CHANGE_PROCESSING_ERROR'']"
  by (simp add: pollForChanges_def select_changes_def cdc_start_def delete_row_def
      broker_down_def processChange_def sendChangeToKafka_def producer_send_def
      processCriticalChange_def
      cdc_isCriticalChange_def cdc_log_def mark_processed_def math_max_def Let_def)

section \<open>Dispatcher\<close>

text \<open>
  C8. \<^verbatim>\<open>processMessage\<close> returns on every message, it never throws. A value that does
  not parse leaves one MESSAGE_PROCESSING_ERROR event of level error and nothing else:
  the counter stands, no handler ran. A topic outside \<^verbatim>\<open>user-events\<close>,
  \<^verbatim>\<open>database-events\<close> and \<^verbatim>\<open>system-logs\<close> leaves the receipt event, one
  UNKNOWN_TOPIC_MESSAGE event of level warn and the completion line, and no output of a
  handler.
\<close>

theorem processMessage_never_throws:
  "(\<exists>st'. processMessage rt tp part m st = Returned st') \<and>
   (m_value m = Some text \<and> JSON_parse rt text = None \<longrightarrow>
      processMessage rt tp part m st =
        Returned (st\<lparr>consumer_logs := consumer_logs st @
          [SystemEvent ''MESSAGE_PROCESSING_ERROR'' ''error''
             (obj [(''topic'', Some (JStr tp)),
                   (''partition'', Some (JNum (of_int part))),
                   (''offset'', Some (JStr (m_offset m)))])]\<rparr>)) \<and>
   (tp \<noteq> ''user-events'' \<and> tp \<noteq> ''database-events'' \<and> tp \<noteq> ''system-logs'' \<and>
    (case m_value m of None \<Rightarrow> Some JNull | Some text \<Rightarrow> JSON_parse rt text) = Some v \<longrightarrow>
      processMessage rt tp part m st =
        Returned (st\<lparr>processedMessages := Suc (processedMessages st),
          consumer_logs := consumer_logs st @
          [KafkaEvent ''MESSAGE_RECEIVED'' tp (Some (JNum (of_int part)))
             (Some (JStr (m_offset m))) (Some (str_json (m_key m))) (Some v),
           SystemEvent ''UNKNOWN_TOPIC_MESSAGE'' ''warn''
             (obj [(''topic'', Some (JStr tp)),
                   (''partition'', Some (JNum (of_int part))),
                   (''offset'', Some (JStr (m_offset m)))]),
           Console (message_processed rt tp part m
                      (st\<lparr>processedMessages := Suc (processedMessages st)\<rparr>))]\<rparr>))"
proof -
  have 1: "\<exists>st'. processMessage rt tp part m st = Returned st'"
    by (simp add: processMessage_def split: outcome.splits)
  have 2: "processMessage rt tp part m st =
        Returned (st\<lparr>consumer_logs := consumer_logs st @
          [SystemEvent ''MESSAGE_PROCESSING_ERROR'' ''error''
             (obj [(''topic'', Some (JStr tp)),
                   (''partition'', Some (JNum (of_int part))),
                   (''offset'', Some (JStr (m_offset m)))])]\<rparr>)"
    if "m_value m = Some text" "JSON_parse rt text = None"
    using that by (simp add: processMessage_def processMessage_try_def consumer_log_def)
  have 3: "processMessage rt tp part m st =
        Returned (st\<lparr>processedMessages := Suc (processedMessages st),
          consumer_logs := consumer_logs st @
          [KafkaEvent ''MESSAGE_RECEIVED'' tp (Some (JNum (of_int part)))
             (Some (JStr (m_offset m))) (Some (str_json (m_key m))) (Some v),
           SystemEvent ''UNKNOWN_TOPIC_MESSAGE'' ''warn''
             (obj [(''topic'', Some (JStr tp)),
                   (''partition'', Some (JNum (of_int part))),
                   (''offset'', Some (JStr (m_offset m)))]),
           Console (message_processed rt tp part m
                      (st\<lparr>processedMessages := Suc (processedMessages st)\<rparr>))]\<rparr>)"
    if "tp \<noteq> ''user-events''" "tp \<noteq> ''database-events''" "tp \<noteq> ''system-logs''"
      "(case m_value m of None \<Rightarrow> Some JNull | Some text \<Rightarrow> JSON_parse rt text) = Some v"
    using that
    by (simp add: processMessage_def processMessage_try_def dispatch_def consumer_log_def
        message_processed_def Let_def)
  from 1 2 3 show ?thesis by blast
qed

theorem processMessage_never_throws_witness:
  "processMessage example_consumer_runtime ''database-events'' 0 (example_message ''not json'')
       consumer_start =
     Returned (consumer_start\<lparr>consumer_logs :=
       [SystemEvent ''MESSAGE_PROCESSING_ERROR'' ''error''
          (JObj [(''topic'', JStr ''database-events''), (''partition'', JNum 0),
                 (''offset'', JStr ''5'')])]\<rparr>) \<and>
   map (\<lambda>e. case e of SystemEvent ev lv d \<Rightarrow> ev | _ \<Rightarrow> [])
     (consumer_logs (case processMessage example_consumer_runtime ''audit-events'' 0
                       (example_message ''{}'') consumer_start of
                      Returned st' \<Rightarrow> st' | Thrown err st' \<Rightarrow> st')) =
     [[], ''UNKNOWN_TOPIC_MESSAGE'', []]"
  using processMessage_never_throws [of example_consumer_runtime "''database-events''" 0
      "example_message ''not json''" consumer_start "''not json''"]
    processMessage_never_throws [of example_consumer_runtime "''audit-events''" 0
      "example_message ''{}''" consumer_start _ "JObj []"]
  by (simp add: example_consumer_runtime_def example_message_def example_parse_def
      consumer_start_def consumer_log_def obj_def)

end
